theory Spec2Isabelle
  imports Complex_Main
begin

section \<open>Python text helpers\<close>

text \<open>
  Strings are byte lists. The helpers below embed the Python builtins the two source
  files call on text: \<open>int(s)\<close>, \<open>s[1:]\<close> and the format \<open>f"{n:03d}"\<close>.
\<close>

definition is_digit :: "char \<Rightarrow> bool" where
  "is_digit c = (48 \<le> (of_char c :: nat) \<and> (of_char c :: nat) \<le> 57)"

definition digit_val :: "char \<Rightarrow> nat" where
  "digit_val c = (of_char c :: nat) - 48"

definition is_space :: "char \<Rightarrow> bool" where
  \<comment> \<open>the ASCII whitespace that \<open>int\<close> strips: tab, line feed, vertical tab, form feed,
      carriage return and space\<close>
  "is_space c = (let n = (of_char c :: nat) in (9 \<le> n \<and> n \<le> 13) \<or> n = 32)"

definition is_ascii :: "char \<Rightarrow> bool" where
  "is_ascii c = ((of_char c :: nat) < 128)"

definition py_strip :: "string \<Rightarrow> string" where
  "py_strip s = rev (dropWhile is_space (rev (dropWhile is_space s)))"

definition lower_char :: "char \<Rightarrow> char" where
  "lower_char c = (let n = (of_char c :: nat) in if 65 \<le> n \<and> n \<le> 90 then char_of (n + 32) else c)"

definition lower :: "string \<Rightarrow> string" where
  "lower s = map lower_char s"

text \<open>
  \<open>parse_digits prev acc s\<close> reads the digit part of an integer literal: decimal
  digits, with a single underscore allowed between two digits (\<open>prev\<close> says that the
  character before was a digit). \<open>py_int\<close> is \<open>int\<close> on ASCII text; \<open>int\<close> also reads
  the decimal digits and the spaces of other scripts, so what is said with \<open>py_int\<close> about
  a text that is rejected is said about ASCII text (\<open>is_ascii\<close>).
\<close>

fun parse_digits :: "bool \<Rightarrow> nat \<Rightarrow> string \<Rightarrow> nat option" where
  "parse_digits prev acc [] = (if prev then Some acc else None)"
| "parse_digits prev acc (c # cs) =
     (if is_digit c then parse_digits True (10 * acc + digit_val c) cs
      else if c = CHR ''_'' \<and> prev \<and> cs \<noteq> [] \<and> is_digit (hd cs) then parse_digits False acc cs
      else None)"

definition int_max_str_digits :: nat where
  "int_max_str_digits = 4300"

definition py_int :: "string \<Rightarrow> int option" where
  \<comment> \<open>\<open>int(s)\<close> on a \<open>str\<close>; \<open>None\<close> is \<open>ValueError\<close>\<close>
  "py_int s =
     (let t = py_strip s in
      if length (filter is_digit t) > int_max_str_digits then None
      else case t of
        [] \<Rightarrow> None
      | c # cs \<Rightarrow>
          if c = CHR ''-'' then map_option (\<lambda>n. - int n) (parse_digits False 0 cs)
          else if c = CHR ''+'' then map_option int (parse_digits False 0 cs)
          else map_option int (parse_digits False 0 t))"

definition digit_char :: "nat \<Rightarrow> char" where
  "digit_char d = char_of (48 + d)"

fun dec :: "nat \<Rightarrow> string" where
  "dec n = (if n < 10 then [digit_char n] else dec (n div 10) @ [digit_char (n mod 10)])"

declare dec.simps [simp del]

definition zfill :: "nat \<Rightarrow> string \<Rightarrow> string" where
  "zfill w s = replicate (w - length s) (CHR ''0'') @ s"

definition fmt_03d :: "int \<Rightarrow> string" where
  \<comment> \<open>\<open>f"{n:03d}"\<close>: the sign counts towards the width of three\<close>
  "fmt_03d n = (if n < 0 then CHR ''-'' # zfill 2 (dec (nat (- n))) else zfill 3 (dec (nat n)))"

section \<open>The relational store\<close>

text \<open>
  Both programs talk to one SQLite file through Python's \<open>sqlite3\<close> module. The store is
  modelled by its catalog and its rows: a table has an ordered list of column descriptors
  (the six fields of \<open>PRAGMA table_info\<close> that the code reads, and the UNIQUE flag the
  catalog keeps) and its rows in rowid order. Table names are case-insensitive in SQLite,
  so the catalog is keyed by the lower-cased name. Views, triggers, indexes, foreign keys
  and collations other than BINARY are not modelled.
\<close>

datatype sqlval = VNull | VInt int | VReal real | VText string | VBlob string

record column =
  cname :: string
  ctype :: string
  notnull :: bool
  dflt :: "string option"
  pk :: bool
  uniq :: bool

record table =
  cols :: "column list"
  rows :: "sqlval list list"

type_synonym db = "string \<Rightarrow> table option"

datatype exn =
  OperationalError | IntegrityError | ValueError | TypeError | OverflowError | AttributeError

definition is_sqlite_error :: "exn \<Rightarrow> bool" where
  \<comment> \<open>the exceptions that \<open>except sqlite3.Error\<close> catches\<close>
  "is_sqlite_error e = (e = OperationalError \<or> e = IntegrityError)"

definition empty_db :: db where
  "empty_db = (\<lambda>_. None)"

definition lookup_table :: "db \<Rightarrow> string \<Rightarrow> table option" where
  "lookup_table d name = d (lower name)"

definition table_info :: "db \<Rightarrow> string \<Rightarrow> column list" where
  \<comment> \<open>\<open>PRAGMA table_info(name)\<close>: no row for a table that does not exist\<close>
  "table_info d name = (case lookup_table d name of None \<Rightarrow> [] | Some t \<Rightarrow> cols t)"

fun find_index_of :: "('a \<Rightarrow> bool) \<Rightarrow> 'a list \<Rightarrow> nat option" where
  "find_index_of P [] = None"
| "find_index_of P (x # xs) = (if P x then Some 0 else map_option Suc (find_index_of P xs))"

definition col_index :: "column list \<Rightarrow> string \<Rightarrow> nat option" where
  \<comment> \<open>a column name in a statement resolves case-insensitively\<close>
  "col_index cs n = find_index_of (\<lambda>c. lower (cname c) = lower n) cs"

text \<open>
  What SQLite does to single values is library code outside the repository and is taken as
  a parameter: \<open>store_as ty v\<close> is the value stored when \<open>v\<close> is written to a column
  of declared type \<open>ty\<close> (column affinity), \<open>where_eq ty x v\<close> decides \<open>col = ?\<close> for a
  stored \<open>x\<close> and a bound \<open>v\<close>, and \<open>eval_default\<close> evaluates a DEFAULT expression.
\<close>

record sqlite =
  store_as :: "string \<Rightarrow> sqlval \<Rightarrow> sqlval"
  where_eq :: "string \<Rightarrow> sqlval \<Rightarrow> sqlval \<Rightarrow> bool"
  eval_default :: "string \<Rightarrow> sqlval"

subsection \<open>Comparison of stored values\<close>

fun bytes_less :: "string \<Rightarrow> string \<Rightarrow> bool" where
  "bytes_less [] [] = False"
| "bytes_less [] (y # ys) = True"
| "bytes_less (x # xs) [] = False"
| "bytes_less (x # xs) (y # ys) =
     ((of_char x :: nat) < of_char y \<or> (x = y \<and> bytes_less xs ys))"

fun val_less :: "sqlval \<Rightarrow> sqlval \<Rightarrow> bool" where
  \<comment> \<open>the order of ORDER BY: NULL, then numbers, then text, then blobs\<close>
  "val_less VNull b = (b \<noteq> VNull)"
| "val_less (VInt i) (VInt j) = (i < j)"
| "val_less (VInt i) (VReal r) = (of_int i < r)"
| "val_less (VReal r) (VInt j) = (r < of_int j)"
| "val_less (VReal r) (VReal q) = (r < q)"
| "val_less (VInt i) b = (b \<noteq> VNull)"
| "val_less (VReal r) b = (b \<noteq> VNull)"
| "val_less (VText s) (VText t) = bytes_less s t"
| "val_less (VText s) (VBlob t) = True"
| "val_less (VText s) b = False"
| "val_less (VBlob s) (VBlob t) = bytes_less s t"
| "val_less (VBlob s) b = False"

fun val_eq :: "sqlval \<Rightarrow> sqlval \<Rightarrow> bool" where
  \<comment> \<open>equality as a UNIQUE constraint sees it: NULL is distinct from everything\<close>
  "val_eq (VInt i) (VInt j) = (i = j)"
| "val_eq (VInt i) (VReal r) = (of_int i = r)"
| "val_eq (VReal r) (VInt j) = (r = of_int j)"
| "val_eq (VReal r) (VReal q) = (r = q)"
| "val_eq (VText s) (VText t) = (s = t)"
| "val_eq (VBlob s) (VBlob t) = (s = t)"
| "val_eq a b = False"

subsection \<open>Column affinity names\<close>

fun contains :: "string \<Rightarrow> string \<Rightarrow> bool" where
  "contains sub [] = (sub = [])"
| "contains sub (x # xs) = (take (length sub) (x # xs) = sub \<or> contains sub xs)"

datatype aff = AffInteger | AffText | AffBlob | AffReal | AffNumeric

definition affinity_of :: "string \<Rightarrow> aff" where
  "affinity_of ty =
     (let u = lower ty in
      if contains ''int'' u then AffInteger
      else if contains ''char'' u \<or> contains ''clob'' u \<or> contains ''text'' u then AffText
      else if contains ''blob'' u \<or> u = [] then AffBlob
      else if contains ''real'' u \<or> contains ''floa'' u \<or> contains ''doub'' u then AffReal
      else AffNumeric)"

fun aff_name :: "aff \<Rightarrow> string" where
  \<comment> \<open>the declared type CREATE TABLE ... AS SELECT gives a column\<close>
  "aff_name AffInteger = ''INT''"
| "aff_name AffText = ''TEXT''"
| "aff_name AffBlob = []"
| "aff_name AffReal = ''REAL''"
| "aff_name AffNumeric = ''NUM''"

subsection \<open>Statements\<close>

text \<open>
  Each statement is a function from the store to the new store or the exception the
  \<open>sqlite3\<close> module raises. The functions take the names of tables and columns. The
  callers paste these names into the statement text without quotes, so a function below
  describes the statement its caller executes only when SQL reads each pasted text as that
  name: an identifier of letters, digits and underscores that does not start with a digit
  and is neither a keyword nor a name with a meaning of its own (\<open>sql_name\<close>). A column
  called \<open>current_date\<close> or \<open>order\<close>, a key called \<open>my id\<close> and an expression
  typed in place of a name are outside this description, and every general statement about
  a successful statement assumes \<open>sql_name\<close> of the names it pastes. A table has at most
  one primary-key column.
\<close>

definition ident_char :: "char \<Rightarrow> bool" where
  "ident_char c =
     (let n = (of_char c :: nat)
      in (48 \<le> n \<and> n \<le> 57) \<or> (65 \<le> n \<and> n \<le> 90) \<or> (97 \<le> n \<and> n \<le> 122) \<or> n = 95)"

definition sql_keywords :: "string list" where
  "sql_keywords =
     [''abort'', ''action'', ''add'', ''after'', ''all'', ''alter'', ''always'', ''analyze'',
      ''and'', ''as'', ''asc'', ''attach'', ''autoincrement'', ''before'', ''begin'',
      ''between'', ''by'', ''cascade'', ''case'', ''cast'', ''check'', ''collate'', ''column'',
      ''commit'', ''conflict'', ''constraint'', ''create'', ''cross'', ''current'',
      ''current_date'', ''current_time'', ''current_timestamp'', ''database'', ''default'',
      ''deferrable'', ''deferred'', ''delete'', ''desc'', ''detach'', ''distinct'', ''do'',
      ''drop'', ''each'', ''else'', ''end'', ''escape'', ''except'', ''exclude'', ''exclusive'',
      ''exists'', ''explain'', ''fail'', ''filter'', ''first'', ''following'', ''for'',
      ''foreign'', ''from'', ''full'', ''generated'', ''glob'', ''group'', ''groups'',
      ''having'', ''if'', ''ignore'', ''immediate'', ''in'', ''index'', ''indexed'',
      ''initially'', ''inner'', ''insert'', ''instead'', ''intersect'', ''into'', ''is'',
      ''isnull'', ''join'', ''key'', ''last'', ''left'', ''like'', ''limit'', ''match'',
      ''materialized'', ''natural'', ''no'', ''not'', ''nothing'', ''notnull'', ''null'',
      ''nulls'', ''of'', ''offset'', ''on'', ''or'', ''order'', ''others'', ''outer'', ''over'',
      ''partition'', ''plan'', ''pragma'', ''preceding'', ''primary'', ''query'', ''raise'',
      ''range'', ''recursive'', ''references'', ''regexp'', ''reindex'', ''release'',
      ''rename'', ''replace'', ''restrict'', ''returning'', ''right'', ''rollback'', ''row'',
      ''rows'', ''savepoint'', ''select'', ''set'', ''table'', ''temp'', ''temporary'',
      ''then'', ''ties'', ''to'', ''transaction'', ''trigger'', ''unbounded'', ''union'',
      ''unique'', ''update'', ''using'', ''vacuum'', ''values'', ''view'', ''virtual'',
      ''when'', ''where'', ''window'', ''with'', ''within'', ''without'',
      ''true'', ''false'', ''rowid'', ''oid'', ''_rowid_'']"

definition sql_name :: "string \<Rightarrow> bool" where
  \<comment> \<open>the text, pasted without quotes, is read as the name it spells; every keyword is
      left out, also those SQLite would still accept as a name, and so are the names that
      start with \<open>sqlite_\<close>, which are reserved\<close>
  "sql_name n =
     (n \<noteq> [] \<and> \<not> is_digit (hd n) \<and> list_all ident_char n \<and> lower n \<notin> set sql_keywords
      \<and> take 7 (lower n) \<noteq> ''sqlite_'')"

definition create_table_if_not_exists :: "string \<Rightarrow> column list \<Rightarrow> db \<Rightarrow> exn + db" where
  "create_table_if_not_exists name cs d =
     (if lookup_table d name \<noteq> None then Inr d
      else Inr (d(lower name \<mapsto> \<lparr>cols = cs, rows = []\<rparr>)))"

text \<open>
  The columns of \<open>CREATE TABLE new AS SELECT proj FROM src\<close> carry the declared names
  of the selected columns, made unique by a suffix \<open>:N\<close>, the affinity name as type,
  and no constraint at all. (SQLite switches to random suffixes after three collisions of
  one name; the model keeps counting.)
\<close>

fun fresh_name :: "string list \<Rightarrow> string \<Rightarrow> nat \<Rightarrow> nat \<Rightarrow> string" where
  "fresh_name used n k 0 = n @ '':'' @ dec k"
| "fresh_name used n k (Suc fuel) =
     (if lower (n @ '':'' @ dec k) \<in> set (map lower used)
      then fresh_name used n (Suc k) fuel else n @ '':'' @ dec k)"

fun ctas_names :: "string list \<Rightarrow> string list \<Rightarrow> string list" where
  "ctas_names used [] = used"
| "ctas_names used (n # ns) =
     (if lower n \<in> set (map lower used)
      then ctas_names (used @ [fresh_name used n 1 (length used)]) ns
      else ctas_names (used @ [n]) ns)"

definition ctas_col :: "string \<Rightarrow> column \<Rightarrow> column" where
  "ctas_col n c = \<lparr>cname = n, ctype = aff_name (affinity_of (ctype c)), notnull = False,
                  dflt = None, pk = False, uniq = False\<rparr>"


definition create_table_as :: "string \<Rightarrow> string list \<Rightarrow> string \<Rightarrow> db \<Rightarrow> exn + db" where
  "create_table_as new proj src d =
     (case lookup_table d src of
        None \<Rightarrow> Inl OperationalError
      | Some t \<Rightarrow>
          if lookup_table d new \<noteq> None then Inl OperationalError
          else if proj = [] then Inl OperationalError
          else (case those (map (col_index (cols t)) proj) of
                  None \<Rightarrow> Inl OperationalError
                | Some idxs \<Rightarrow>
                    let sel = map (\<lambda>i. cols t ! i) idxs
                    in Inr (d(lower new \<mapsto>
                         \<lparr>cols = map2 ctas_col (ctas_names [] (map cname sel)) sel,
                          rows = map (\<lambda>r. map (\<lambda>i. r ! i) idxs) (rows t)\<rparr>))))"

definition drop_table :: "string \<Rightarrow> db \<Rightarrow> exn + db" where
  "drop_table name d =
     (if lookup_table d name = None then Inl OperationalError
      else Inr (d(lower name := None)))"

definition rename_table :: "string \<Rightarrow> string \<Rightarrow> db \<Rightarrow> exn + db" where
  "rename_table old new d =
     (case lookup_table d old of
        None \<Rightarrow> Inl OperationalError
      | Some t \<Rightarrow>
          if lookup_table d new \<noteq> None then Inl OperationalError
          else Inr ((d(lower old := None))(lower new \<mapsto> t)))"

definition add_column :: "string \<Rightarrow> string \<Rightarrow> string \<Rightarrow> db \<Rightarrow> exn + db" where
  "add_column name c ty d =
     (case lookup_table d name of
        None \<Rightarrow> Inl OperationalError
      | Some t \<Rightarrow>
          if col_index (cols t) c \<noteq> None then Inl OperationalError
          else Inr (d(lower name \<mapsto>
                 t\<lparr>cols := cols t @ [\<lparr>cname = c, ctype = ty, notnull = False, dflt = None,
                                       pk = False, uniq = False\<rparr>],
                   rows := map (\<lambda>r. r @ [VNull]) (rows t)\<rparr>)))"

definition is_rowid_alias :: "column \<Rightarrow> bool" where
  \<comment> \<open>an INTEGER PRIMARY KEY column holds the rowid\<close>
  "is_rowid_alias c = (pk c \<and> lower (ctype c) = ''integer'')"

definition is_unique :: "column \<Rightarrow> bool" where
  "is_unique c = (pk c \<or> uniq c)"

fun is_int :: "sqlval \<Rightarrow> bool" where
  "is_int (VInt i) = True"
| "is_int v = False"

fun int_vals :: "sqlval list \<Rightarrow> int list" where
  "int_vals [] = []"
| "int_vals (VInt i # vs) = i # int_vals vs"
| "int_vals (v # vs) = int_vals vs"

definition next_rowid :: "sqlval list \<Rightarrow> int" where
  "next_rowid vs = (case int_vals vs of [] \<Rightarrow> 1 | i # js \<Rightarrow> foldl max i js + 1)"

definition column_vals :: "table \<Rightarrow> nat \<Rightarrow> sqlval list" where
  "column_vals t j = map (\<lambda>r. r ! j) (rows t)"

fun insert_by :: "nat \<Rightarrow> sqlval list \<Rightarrow> sqlval list list \<Rightarrow> sqlval list list" where
  "insert_by j row [] = [row]"
| "insert_by j row (r # rs) =
     (if val_less (row ! j) (r ! j) then row # r # rs else r # insert_by j row rs)"

definition place_row :: "table \<Rightarrow> sqlval list \<Rightarrow> sqlval list list" where
  \<comment> \<open>rows are kept in rowid order: by the INTEGER PRIMARY KEY column where the table has
      one, and else in the order of insertion\<close>
  "place_row t row =
     (case find_index_of is_rowid_alias (cols t) of
        None \<Rightarrow> rows t @ [row]
      | Some j \<Rightarrow> insert_by j row (rows t))"

definition insert_into :: "sqlite \<Rightarrow> string \<Rightarrow> string list \<Rightarrow> sqlval list \<Rightarrow> db \<Rightarrow> exn + db" where
  "insert_into eng name cns vals d =
     (case lookup_table d name of
        None \<Rightarrow> Inl OperationalError
      | Some t \<Rightarrow>
          if cns = [] then Inl OperationalError
          else if length cns \<noteq> length vals then Inl OperationalError
          else (case those (map (col_index (cols t)) cns) of
                  None \<Rightarrow> Inl OperationalError
                | Some idxs \<Rightarrow>
                    let given = map_of (zip idxs vals);
                        ecs = enumerate 0 (cols t);
                        raw = (\<lambda>(j, c). case given j of
                                 Some v \<Rightarrow> store_as eng (ctype c) v
                               | None \<Rightarrow> (case dflt c of
                                            None \<Rightarrow> VNull
                                          | Some e \<Rightarrow> store_as eng (ctype c) (eval_default eng e)));
                        row = map (\<lambda>(j, c).
                                 if is_rowid_alias c \<and> raw (j, c) = VNull
                                 then VInt (next_rowid (column_vals t j)) else raw (j, c)) ecs
                    in if list_ex (\<lambda>(j, c). is_rowid_alias c \<and> \<not> is_int (row ! j)) ecs
                       then Inl IntegrityError
                       else if list_ex (\<lambda>(j, c). notnull c \<and> row ! j = VNull) ecs
                       then Inl IntegrityError
                       else if list_ex (\<lambda>(j, c). is_unique c \<and>
                                          list_ex (\<lambda>x. val_eq x (row ! j)) (column_vals t j)) ecs
                       then Inl IntegrityError
                       else Inr (d(lower name \<mapsto> t\<lparr>rows := place_row t row\<rparr>))))"

definition hit :: "sqlite \<Rightarrow> table \<Rightarrow> nat \<Rightarrow> sqlval \<Rightarrow> sqlval list \<Rightarrow> bool" where
  \<comment> \<open>\<open>WHERE col = ?\<close> on one row; \<open>wi\<close> is the position of the column\<close>
  "hit eng t wi wval r = where_eq eng (ctype (cols t ! wi)) (r ! wi) wval"

definition patch :: "(nat \<Rightarrow> sqlval option) \<Rightarrow> sqlval list \<Rightarrow> sqlval list" where
  "patch new r = map (\<lambda>(j, x). case new j of None \<Rightarrow> x | Some v \<Rightarrow> v) (enumerate 0 r)"

definition violates :: "column list \<Rightarrow> (nat \<Rightarrow> sqlval option) \<Rightarrow> sqlval list list \<Rightarrow> bool" where
  \<comment> \<open>an assigned value breaks NOT NULL, the rowid type or UNIQUE in the updated rows\<close>
  "violates cs new rs =
     list_ex (\<lambda>(j, c). case new j of
                None \<Rightarrow> False
              | Some v \<Rightarrow>
                  if notnull c \<and> v = VNull then True
                  else if is_rowid_alias c \<and> \<not> is_int v then True
                  else is_unique c \<and> 1 < length (filter (\<lambda>r. val_eq (r ! j) v) rs))
       (enumerate 0 cs)"

definition update_where ::
  "sqlite \<Rightarrow> string \<Rightarrow> (string \<times> sqlval) list \<Rightarrow> string \<Rightarrow> sqlval \<Rightarrow> db \<Rightarrow> exn + db" where
  "update_where eng name asg wcol wval d =
     (case lookup_table d name of
        None \<Rightarrow> Inl OperationalError
      | Some t \<Rightarrow>
          (case col_index (cols t) wcol of
             None \<Rightarrow> Inl OperationalError
           | Some wi \<Rightarrow>
               (case those (map (\<lambda>a. col_index (cols t) (fst a)) asg) of
                  None \<Rightarrow> Inl OperationalError
                | Some idxs \<Rightarrow>
                    if asg = [] then Inl OperationalError
                    else
                      let new = map_of (map2 (\<lambda>i a. (i, store_as eng (ctype (cols t ! i)) (snd a)))
                                          idxs asg);
                          rows' = map (\<lambda>r. if hit eng t wi wval r then patch new r else r) (rows t)
                      in if list_ex (hit eng t wi wval) (rows t) \<and> violates (cols t) new rows'
                         then Inl IntegrityError
                         else Inr (d(lower name \<mapsto> t\<lparr>rows := rows'\<rparr>)))))"


definition select_where ::
  "sqlite \<Rightarrow> db \<Rightarrow> string \<Rightarrow> string \<Rightarrow> sqlval \<Rightarrow> exn + sqlval list list" where
  \<comment> \<open>\<open>SELECT * FROM name WHERE wcol = ?\<close>\<close>
  "select_where eng d name wcol wval =
     (case lookup_table d name of
        None \<Rightarrow> Inl OperationalError
      | Some t \<Rightarrow>
          (case col_index (cols t) wcol of
             None \<Rightarrow> Inl OperationalError
           | Some wi \<Rightarrow> Inr (filter (hit eng t wi wval) (rows t))))"

definition select_col_where ::
  "sqlite \<Rightarrow> db \<Rightarrow> string \<Rightarrow> string \<Rightarrow> string \<Rightarrow> sqlval \<Rightarrow> exn + sqlval list" where
  \<comment> \<open>\<open>SELECT col FROM name WHERE wcol = ?\<close>\<close>
  "select_col_where eng d name col wcol wval =
     (case lookup_table d name of
        None \<Rightarrow> Inl OperationalError
      | Some t \<Rightarrow>
          (case col_index (cols t) col of
             None \<Rightarrow> Inl OperationalError
           | Some i \<Rightarrow>
               (case col_index (cols t) wcol of
                  None \<Rightarrow> Inl OperationalError
                | Some wi \<Rightarrow> Inr (map (\<lambda>r. r ! i) (filter (hit eng t wi wval) (rows t))))))"

definition select_column :: "db \<Rightarrow> string \<Rightarrow> string \<Rightarrow> exn + sqlval list" where
  \<comment> \<open>\<open>SELECT col FROM name\<close>\<close>
  "select_column d name col =
     (case lookup_table d name of
        None \<Rightarrow> Inl OperationalError
      | Some t \<Rightarrow>
          (case col_index (cols t) col of
             None \<Rightarrow> Inl OperationalError
           | Some i \<Rightarrow> Inr (column_vals t i)))"

definition max_val :: "sqlval list \<Rightarrow> sqlval option" where
  \<comment> \<open>the first value under \<open>ORDER BY ... DESC LIMIT 1\<close>\<close>
  "max_val vs =
     (case vs of [] \<Rightarrow> None
      | x # xs \<Rightarrow> Some (foldl (\<lambda>m v. if val_less m v then v else m) x xs))"

subsection \<open>The connection\<close>

text \<open>
  A connection sees its own uncommitted changes (\<open>work\<close>); \<open>disk\<close> is the committed
  store. The \<open>sqlite3\<close> module opens a transaction by itself before INSERT, UPDATE and
  DELETE only; any other statement that runs while no transaction is open is committed at
  once. A statement that raises changes nothing itself, and what the statements before it
  did stays: nothing in the callers below rolls back.
\<close>

record conn =
  disk :: db
  work :: db
  in_txn :: bool

definition execute_dml :: "(db \<Rightarrow> exn + db) \<Rightarrow> conn \<Rightarrow> conn \<times> exn option" where
  \<comment> \<open>a statement that does not compile (an unknown table or column) raises before the
      transaction is opened, a constraint raises after\<close>
  "execute_dml f c =
     (case f (work c) of
        Inl e \<Rightarrow> (if e = OperationalError then c else c\<lparr>in_txn := True\<rparr>, Some e)
      | Inr d \<Rightarrow> (c\<lparr>work := d, in_txn := True\<rparr>, None))"

definition execute_ddl :: "(db \<Rightarrow> exn + db) \<Rightarrow> conn \<Rightarrow> conn \<times> exn option" where
  "execute_ddl f c =
     (case f (work c) of
        Inl e \<Rightarrow> (c, Some e)
      | Inr d \<Rightarrow> (if in_txn c then c\<lparr>work := d\<rparr> else c\<lparr>disk := d, work := d\<rparr>, None))"

definition commit :: "conn \<Rightarrow> conn" where
  "commit c = c\<lparr>disk := work c, in_txn := False\<rparr>"

definition int64 :: "int \<Rightarrow> bool" where
  "int64 i = (- (2 ^ 63) \<le> i \<and> i < 2 ^ 63)"

fun bindable :: "sqlval \<Rightarrow> bool" where
  \<comment> \<open>binding a Python int outside 64 bits raises OverflowError\<close>
  "bindable (VInt i) = int64 i"
| "bindable v = True"

section \<open>The admin tool: \<open>db_manager.py\<close>\<close>

text \<open>
  Each method of \<open>NextGenFitnessDB\<close> takes the connection and what the user types at its
  prompts, and returns the connection and what it reports. \<open>SqlError e\<close> is the branch
  \<open>except sqlite3.Error\<close> (the error is printed and the menu goes on); \<open>Crash e\<close> is an
  exception no handler of the method catches. Printing is not modelled.
\<close>

datatype outcome =
  Inserted | Updated | NoChanges | Deleted | Cancelled | NoPrimaryKey
| ColumnAdded | InvalidTypeChoice | Renamed | Dropped | Returned | InvalidChoice
| SqlError exn | Crash exn

subsection \<open>\<open>insert_record\<close>\<close>

text \<open>
  \<open>answers\<close> gives what is typed at the prompt of each column. \<open>float\<close> is the Python
  builtin, taken as a parameter. The values are bound when the INSERT is executed, after
  the module has opened its transaction.
\<close>

definition convert :: "(string \<Rightarrow> real option) \<Rightarrow> string \<Rightarrow> string \<Rightarrow> exn + sqlval" where
  \<comment> \<open>the conversion of one typed value by the declared type of its column\<close>
  "convert py_float col_type v =
     (if col_type = ''INTEGER'' then
        (if v = [] then Inr VNull
         else case py_int v of None \<Rightarrow> Inl ValueError | Some i \<Rightarrow> Inr (VInt i))
      else if col_type = ''REAL'' then
        (if v = [] then Inr VNull
         else case py_float v of None \<Rightarrow> Inl ValueError | Some x \<Rightarrow> Inr (VReal x))
      else Inr (VText v))"

fun convert_all ::
  "(string \<Rightarrow> real option) \<Rightarrow> (string \<Rightarrow> string) \<Rightarrow> column list \<Rightarrow> exn + sqlval list" where
  "convert_all py_float answers [] = Inr []"
| "convert_all py_float answers (c # cs) =
     (case convert py_float (ctype c) (answers (cname c)) of
        Inl e \<Rightarrow> Inl e
      | Inr v \<Rightarrow> (case convert_all py_float answers cs of
                   Inl e \<Rightarrow> Inl e
                 | Inr vs \<Rightarrow> Inr (v # vs)))"

definition insert_record ::
  "sqlite \<Rightarrow> (string \<Rightarrow> real option) \<Rightarrow> conn \<Rightarrow> string \<Rightarrow> (string \<Rightarrow> string) \<Rightarrow> conn \<times> outcome" where
  "insert_record eng py_float c table_name answers =
     (let columns = table_info (work c) table_name
      in case convert_all py_float answers columns of
           Inl e \<Rightarrow> (c, Crash e)
         | Inr values \<Rightarrow>
             if \<not> list_all bindable values then (c\<lparr>in_txn := True\<rparr>, Crash OverflowError)
             else (case execute_dml (insert_into eng table_name (map cname columns) values) c of
                     (c1, Some e) \<Rightarrow> (c1, SqlError e)
                   | (c1, None) \<Rightarrow> (commit c1, Inserted)))"

subsection \<open>\<open>update_record\<close> and \<open>delete_record\<close>\<close>

definition primary_key_of :: "column list \<Rightarrow> string" where
  \<comment> \<open>the name of the first column whose pk flag is set; empty stands for Python's None,
      and the test \<open>not primary_key\<close> treats both alike\<close>
  "primary_key_of columns = (case find pk columns of None \<Rightarrow> [] | Some col \<Rightarrow> cname col)"

definition updates_of :: "column list \<Rightarrow> string \<Rightarrow> (string \<Rightarrow> string) \<Rightarrow> (string \<times> sqlval) list" where
  \<comment> \<open>the SET list: the columns other than the key for which something was typed\<close>
  "updates_of columns primary_key answers =
     map (\<lambda>col. (cname col, VText (answers (cname col))))
       (filter (\<lambda>col. cname col \<noteq> primary_key \<and> answers (cname col) \<noteq> []) columns)"

definition update_record ::
  "sqlite \<Rightarrow> conn \<Rightarrow> string \<Rightarrow> string \<Rightarrow> (string \<Rightarrow> string) \<Rightarrow> conn \<times> outcome" where
  "update_record eng c table_name primary_key_value answers =
     (let columns = table_info (work c) table_name;
          primary_key = primary_key_of columns
      in if primary_key = [] then (c, NoPrimaryKey)
         else
           let updates = updates_of columns primary_key answers
           in if updates \<noteq> [] then
                (case execute_dml (update_where eng table_name updates primary_key
                                     (VText primary_key_value)) c of
                   (c1, Some e) \<Rightarrow> (c1, SqlError e)
                 | (c1, None) \<Rightarrow> (commit c1, Updated))
              else (c, NoChanges))"


subsection \<open>\<open>modify_table\<close>\<close>

text \<open>
  The menu choice and the names typed after it (already stripped) are one value. With an
  empty column name the text of ADD COLUMN reads the type as the name of a column without
  a type. The three
  statements of a rebuild are numbered 0, 1, 2; \<open>fault k\<close> makes statement \<open>k\<close> raise a
  store error, which is how a failure of the engine in the middle of a rebuild (a lock, an
  I/O error, a schema object that depends on the table) is injected.
\<close>

datatype modify_input =
  Choice1 string string
| Choice2 string string
| Choice3 string
| Choice4
| ChoiceOther

definition inject :: "bool \<Rightarrow> (db \<Rightarrow> exn + db) \<Rightarrow> db \<Rightarrow> exn + db" where
  "inject b f d = (if b then Inl OperationalError else f d)"

definition data_types :: "string \<Rightarrow> string option" where
  "data_types k =
     (if k = ''1'' then Some ''TEXT''
      else if k = ''2'' then Some ''INTEGER''
      else if k = ''3'' then Some ''REAL''
      else if k = ''4'' then Some ''BOOLEAN''
      else if k = ''5'' then Some ''TIMESTAMP''
      else None)"

definition rebuild ::
  "(nat \<Rightarrow> bool) \<Rightarrow> conn \<Rightarrow> string \<Rightarrow> string list \<Rightarrow> outcome \<Rightarrow> conn \<times> outcome" where
  \<comment> \<open>the three statements and the commit that the rename and the drop branch share\<close>
  "rebuild fault c table_name columns done =
     (case execute_ddl (inject (fault 0)
             (create_table_as (table_name @ ''_new'') columns table_name)) c of
        (c1, Some e) \<Rightarrow> (c1, SqlError e)
      | (c1, None) \<Rightarrow>
          (case execute_ddl (inject (fault 1) (drop_table table_name)) c1 of
             (c2, Some e) \<Rightarrow> (c2, SqlError e)
           | (c2, None) \<Rightarrow>
               (case execute_ddl (inject (fault 2)
                       (rename_table (table_name @ ''_new'') table_name)) c2 of
                  (c3, Some e) \<Rightarrow> (c3, SqlError e)
                | (c3, None) \<Rightarrow> (commit c3, done))))"

definition modify_table :: "(nat \<Rightarrow> bool) \<Rightarrow> conn \<Rightarrow> string \<Rightarrow> modify_input \<Rightarrow> conn \<times> outcome" where
  "modify_table fault c table_name inp =
     (case inp of
        Choice1 col_name type_choice \<Rightarrow>
          (case data_types type_choice of
             Some data_type \<Rightarrow>
               (case execute_ddl (if col_name = [] then add_column table_name data_type []
                                  else add_column table_name col_name data_type) c of
                  (c1, Some e) \<Rightarrow> (c1, SqlError e)
                | (c1, None) \<Rightarrow> (commit c1, ColumnAdded))
           | None \<Rightarrow> (c, InvalidTypeChoice))
      | Choice2 old_name new_name \<Rightarrow>
          (let columns = map cname (table_info (work c) table_name);
               new_columns = map (\<lambda>col. if col = old_name then new_name else col) columns
           in rebuild fault c table_name new_columns Renamed)
      | Choice3 col_name \<Rightarrow>
          (let columns = filter (\<lambda>col. col \<noteq> col_name) (map cname (table_info (work c) table_name))
           in rebuild fault c table_name columns Dropped)
      | Choice4 \<Rightarrow> (c, Returned)
      | ChoiceOther \<Rightarrow> (c, InvalidChoice))"

definition no_fault :: "nat \<Rightarrow> bool" where
  "no_fault k = False"

section \<open>The HTTP service: \<open>NextGenFItness.py\<close>\<close>

text \<open>
  A handler opens its own connection, so it is a function on the committed store: what it
  wrote is there after its \<open>commit\<close>, and nothing is when an exception ends it before.
  \<open>Unhandled e\<close> is an exception leaving the handler, which the framework answers with
  status 500. The request fields of \<open>signup\<close> are the strings of a well-formed JSON body
  (\<open>role\<close> an integer or absent); the two functions of \<open>werkzeug.security\<close> are
  parameters. The bookkeeping table that AUTOINCREMENT adds to the catalog is left out.
\<close>

datatype body = ErrorMsg string | Message string | Registered string string

datatype response = Reply nat body | Unhandled exn

definition users_columns :: "column list" where
  \<comment> \<open>the catalog reports the type written \<open>Text\<close> as \<open>TEXT\<close>\<close>
  "users_columns =
     [\<lparr>cname = ''ID'', ctype = ''INTEGER'', notnull = False, dflt = None, pk = True, uniq = False\<rparr>,
      \<lparr>cname = ''username'', ctype = ''TEXT'', notnull = False, dflt = None, pk = False, uniq = False\<rparr>,
      \<lparr>cname = ''email'', ctype = ''TEXT'', notnull = False, dflt = None, pk = False, uniq = True\<rparr>,
      \<lparr>cname = ''password'', ctype = ''TEXT'', notnull = False, dflt = None, pk = False, uniq = False\<rparr>,
      \<lparr>cname = ''role'', ctype = ''INTEGER'', notnull = False, dflt = None, pk = False, uniq = False\<rparr>]"

definition init_db :: "db \<Rightarrow> db" where
  "init_db d = (case create_table_if_not_exists ''users'' users_columns d of
                  Inl e \<Rightarrow> d | Inr d' \<Rightarrow> d')"

fun new_num :: "sqlval option \<Rightarrow> exn + int" where
  \<comment> \<open>\<open>last\<close> is the row fetched, here its only field\<close>
  "new_num None = Inr 1"
| "new_num (Some VNull) = Inr 1"
| "new_num (Some (VText s)) =
     (if s = [] then Inr 1
      else case py_int (drop 1 s) of None \<Rightarrow> Inl ValueError | Some last_num \<Rightarrow> Inr (last_num + 1))"
| "new_num (Some (VBlob s)) =
     (if s = [] then Inr 1
      else case py_int (drop 1 s) of None \<Rightarrow> Inl ValueError | Some last_num \<Rightarrow> Inr (last_num + 1))"
| "new_num (Some (VInt i)) = (if i = 0 then Inr 1 else Inl TypeError)"
| "new_num (Some (VReal x)) = (if x = 0 then Inr 1 else Inl TypeError)"

definition signup ::
  "sqlite \<Rightarrow> (string \<Rightarrow> string) \<Rightarrow> db \<Rightarrow> string \<Rightarrow> string \<Rightarrow> string \<Rightarrow> int option \<Rightarrow> db \<times> response" where
  "signup eng generate_password_hash d username email pw role_field =
     (let password = generate_password_hash pw;
          role = (case role_field of None \<Rightarrow> 1 | Some r \<Rightarrow> r)
      in case select_where eng d ''User'' ''username'' (VText username) of
           Inl e \<Rightarrow> (d, Unhandled e)
         | Inr (r # rs) \<Rightarrow> (d, Reply 409 (ErrorMsg ''Username already exists''))
         | Inr [] \<Rightarrow>
             (case select_where eng d ''User'' ''email'' (VText email) of
                Inl e \<Rightarrow> (d, Unhandled e)
              | Inr (r # rs) \<Rightarrow> (d, Reply 409 (ErrorMsg ''Email already registered''))
              | Inr [] \<Rightarrow>
                  (case select_column d ''User'' ''user_id'' of
                     Inl e \<Rightarrow> (d, Unhandled e)
                   | Inr ids \<Rightarrow>
                       (case new_num (max_val ids) of
                          Inl e \<Rightarrow> (d, Unhandled e)
                        | Inr n \<Rightarrow>
                            let new_user_id = ''U'' @ fmt_03d n
                            in if \<not> int64 role then (d, Unhandled OverflowError)
                               else (case insert_into eng ''User''
                                            [''user_id'', ''username'', ''email'', ''password'', ''role'']
                                            [VText new_user_id, VText username, VText email,
                                             VText password, VInt role] d of
                                       Inl e \<Rightarrow> (d, Unhandled e)
                                     | Inr d' \<Rightarrow>
                                         (d', Reply 201 (Registered ''User registered successfully''
                                                           new_user_id)))))))"

text \<open>
  \<open>login\<close> reads its two fields with \<open>data.get\<close>, so either may be missing (\<open>None\<close>);
  a missing username is bound as NULL. \<open>check_password_hash\<close> is called only when a row
  was found, with the stored value, whatever it is, and the password field; as a function of
  the library it is a parameter that returns a truth value or raises.
\<close>

definition bind_text :: "string option \<Rightarrow> sqlval" where
  "bind_text x = (case x of None \<Rightarrow> VNull | Some s \<Rightarrow> VText s)"

definition login ::
  "sqlite \<Rightarrow> (sqlval \<Rightarrow> string option \<Rightarrow> exn + bool) \<Rightarrow> db
     \<Rightarrow> string option \<Rightarrow> string option \<Rightarrow> response" where
  "login eng check_password_hash d username password =
     (case select_col_where eng d ''User'' ''password'' ''username'' (bind_text username) of
        Inl e \<Rightarrow> Unhandled e
      | Inr [] \<Rightarrow> Reply 401 (ErrorMsg ''Invalid username or password'')
      | Inr (h # hs) \<Rightarrow>
          (case check_password_hash h password of
             Inl e \<Rightarrow> Unhandled e
           | Inr ok \<Rightarrow>
               if ok then Reply 200 (Message ''Login successful'')
               else Reply 401 (ErrorMsg ''Invalid username or password'')))"

section \<open>Example stores\<close>

text \<open>
  An engine for the examples. It agrees with SQLite on the values that occur in them: text
  is stored as it is, except that an unsigned decimal integer written into a column of
  numeric affinity is stored as a number; \<open>col = ?\<close> gives the bound value the affinity of
  the column and then compares.
\<close>

definition int_text :: "string \<Rightarrow> int option" where
  "int_text s =
     (if s \<noteq> [] \<and> list_all is_digit s \<and> length s \<le> 18
      then map_option int (parse_digits False 0 s) else None)"

definition example_store :: "string \<Rightarrow> sqlval \<Rightarrow> sqlval" where
  "example_store ty v =
     (case v of
        VText s \<Rightarrow>
          (case int_text s of
             None \<Rightarrow> v
           | Some n \<Rightarrow>
               (case affinity_of ty of
                  AffInteger \<Rightarrow> VInt n
                | AffNumeric \<Rightarrow> VInt n
                | AffReal \<Rightarrow> VReal (of_int n)
                | AffText \<Rightarrow> v
                | AffBlob \<Rightarrow> v))
      | VNull \<Rightarrow> v | VInt i \<Rightarrow> v | VReal x \<Rightarrow> v | VBlob b \<Rightarrow> v)"

definition example_engine :: sqlite where
  "example_engine =
     \<lparr>store_as = example_store,
      where_eq = (\<lambda>ty x v. val_eq x (example_store ty v)),
      eval_default = (\<lambda>e. VNull)\<rparr>"

definition mk_col :: "string \<Rightarrow> string \<Rightarrow> bool \<Rightarrow> column" where
  "mk_col n ty key = \<lparr>cname = n, ctype = ty, notnull = False, dflt = None, pk = key, uniq = False\<rparr>"

definition routines :: table where
  \<comment> \<open>\<open>CREATE TABLE routines (id INTEGER PRIMARY KEY, title TEXT)\<close> with one row\<close>
  "routines =
     \<lparr>cols = [mk_col ''id'' ''INTEGER'' True, mk_col ''title'' ''TEXT'' False],
      rows = [[VInt 1, VText ''Leg Day'']]\<rparr>"

definition plans :: table where
  \<comment> \<open>\<open>CREATE TABLE plans (id INTEGER PRIMARY KEY, title TEXT, notes TEXT)\<close> with one row\<close>
  "plans =
     \<lparr>cols = [mk_col ''id'' ''INTEGER'' True, mk_col ''title'' ''TEXT'' False,
              mk_col ''notes'' ''TEXT'' False],
      rows = [[VInt 1, VText ''Leg Day'', VText ''heavy'']]\<rparr>"

definition example_db :: db where
  "example_db = (empty_db(''routines'' \<mapsto> routines))(''plans'' \<mapsto> plans)"

definition example_conn :: conn where
  "example_conn = \<lparr>disk = example_db, work = example_db, in_txn = False\<rparr>"

definition user_table :: "bool \<Rightarrow> table" where
  \<comment> \<open>a table \<open>User\<close> as \<open>signup\<close> expects it, holding the user U999; the flag says whether
      \<open>user_id\<close> is the primary key\<close>
  "user_table key =
     \<lparr>cols = [mk_col ''user_id'' ''TEXT'' key, mk_col ''username'' ''TEXT'' False,
              mk_col ''email'' ''TEXT'' False, mk_col ''password'' ''TEXT'' False,
              mk_col ''role'' ''INTEGER'' False],
      rows = [[VText ''U999'', VText ''zoe'', VText ''zoe@example.com'', VText ''pw-zoe'', VInt 1]]\<rparr>"

definition user_db :: "bool \<Rightarrow> db" where
  "user_db key = empty_db(''user'' \<mapsto> user_table key)"

definition example_check :: "sqlval \<Rightarrow> string option \<Rightarrow> exn + bool" where
  \<comment> \<open>a stand-in for \<open>check_password_hash\<close>, where the text \<open>pw-p\<close> stands for the hash
      that \<open>generate_password_hash\<close> makes of \<open>p\<close>: a stored value that is not text has
      no method \<open>split\<close>, and a missing password no method \<open>encode\<close> when it is hashed
      for the comparison\<close>
  "example_check stored password =
     (case stored of
        VText h \<Rightarrow> (case password of None \<Rightarrow> Inl AttributeError | Some p \<Rightarrow> Inr (h = ''pw-'' @ p))
      | VBlob b \<Rightarrow> Inl TypeError
      | VNull \<Rightarrow> Inl AttributeError
      | VInt i \<Rightarrow> Inl AttributeError
      | VReal x \<Rightarrow> Inl AttributeError)"

definition login_table :: table where
  \<comment> \<open>the table \<open>User\<close> with the user zoe and a user john who has no password, as
      \<open>INSERT INTO User (user_id, username, email) VALUES ('U002', 'john', 'john@example.com')\<close>
      leaves him\<close>
  "login_table =
     \<lparr>cols = cols (user_table False),
      rows = rows (user_table False)
             @ [[VText ''U002'', VText ''john'', VText ''john@example.com'', VNull, VNull]]\<rparr>"

definition login_db :: db where
  "login_db = empty_db(''user'' \<mapsto> login_table)"

section \<open>Properties\<close>

subsection \<open>Names in the catalog\<close>

lemma lower_User: "lower ''User'' = ''user''"
  by code_simp

lemma lower_users: "lower ''users'' = ''users''"
  by (simp add: lower_def lower_char_def)

lemma init_db_no_User:
  assumes "lookup_table d ''User'' = None"
  shows "lookup_table (init_db d) ''User'' = None"
  using assms
  by (simp add: init_db_def create_table_if_not_exists_def lookup_table_def lower_User lower_users)

lemma users_columns_no_user_id: "col_index users_columns ''user_id'' = None"
  by (simp add: col_index_def users_columns_def lower_def lower_char_def)

lemma routines_plain:
  "sql_name ''routines''" "list_all (\<lambda>x. sql_name (cname x)) (cols routines)"
  by code_simp+


lemma plans_plain:
  "sql_name ''plans''" "list_all (\<lambda>x. sql_name (cname x)) (cols plans)"
  by code_simp+

subsection \<open>Signup on the store that \<open>init_db\<close> creates\<close>

text \<open>
  C3. \<open>init_db\<close> creates the table \<open>users\<close> with the columns ID, username, email,
  password and role. \<open>signup\<close> reads and writes the table \<open>User\<close> and its column
  \<open>user_id\<close>. On a store that has no table \<open>User\<close> before \<open>init_db\<close> runs, every
  signup request, whatever its username and email, ends with a store error
  (\<open>sqlite3.OperationalError\<close>, unhandled) and never with status 201; the store is left
  as \<open>init_db\<close> made it. The columns \<open>init_db\<close> declares contain no \<open>user_id\<close>.
\<close>

theorem signup_after_init_db:
  assumes "lookup_table d ''User'' = None"
  shows "signup eng gph (init_db d) username email pw role_field
           = (init_db d, Unhandled OperationalError)
         \<and> col_index users_columns ''user_id'' = None"
  using init_db_no_User [OF assms] users_columns_no_user_id
  by (simp add: signup_def select_where_def)

theorem signup_after_init_db_witness:
  "lookup_table empty_db ''User'' = None
   \<and> signup \<lparr>store_as = (\<lambda>ty v. v), where_eq = (\<lambda>ty x v. x = v), eval_default = (\<lambda>e. VNull)\<rparr>
        (\<lambda>p. p) (init_db empty_db) ''ann'' ''ann@example.com'' ''secret'' None
       = (init_db empty_db, Unhandled OperationalError)"
proof -
  have h: "lookup_table empty_db ''User'' = None"
    by (simp add: lookup_table_def empty_db_def)
  show ?thesis using h signup_after_init_db [OF h] by simp
qed

subsection \<open>Resolving column names\<close>

lemma find_index_of_Some:
  "find_index_of P xs = Some j \<Longrightarrow> j < length xs \<and> P (xs ! j)"
  by (induction xs arbitrary: j) (auto split: if_splits)

lemma find_index_of_ex:
  "x \<in> set xs \<Longrightarrow> P x \<Longrightarrow> \<exists>j. find_index_of P xs = Some j"
  by (induction xs) auto

lemma col_index_member:
  "c \<in> set cs \<Longrightarrow> \<exists>j. col_index cs (cname c) = Some j"
  unfolding col_index_def by (rule find_index_of_ex [where x = c]) auto

lemma those_map_total:
  "\<forall>x \<in> set xs. \<exists>y. f x = Some y \<Longrightarrow> \<exists>ys. those (map f xs) = Some ys"
  by (induction xs) auto


lemma updates_of_resolve:
  "\<exists>idxs. those (map (\<lambda>a. col_index cs (fst a)) (updates_of cs k answers)) = Some idxs"
  by (rule those_map_total) (auto simp: updates_of_def col_index_member)

subsection \<open>Update of a key that no row has\<close>

lemma no_hit_rows:
  "\<forall>r \<in> set rs. \<not> P r \<Longrightarrow> map (\<lambda>r. if P r then f r else r) rs = rs"
  by (induction rs) auto

lemma no_hit_ex: "\<forall>r \<in> set rs. \<not> P r \<Longrightarrow> \<not> list_ex P rs"
  by (simp add: list_ex_iff)

lemma update_where_no_hit:
  assumes "lookup_table d name = Some t"
      and "col_index (cols t) wcol = Some wi"
      and "those (map (\<lambda>a. col_index (cols t) (fst a)) asg) = Some idxs"
      and "asg \<noteq> []"
      and "\<forall>r \<in> set (rows t). \<not> hit eng t wi wval r"
  shows "update_where eng name asg wcol wval d = Inr d"
proof -
  have "d(lower name \<mapsto> t) = d"
    using assms(1) by (auto simp: lookup_table_def)
  then show ?thesis
    using assms by (simp add: update_where_def no_hit_rows no_hit_ex)
qed

text \<open>
  C6, as the code has it. The table and its columns have plain names (\<open>sql_name\<close>, so
  that the UPDATE statement the method builds is the statement modelled), the table has a
  primary key, something was typed for at least one other column, and no row has the key
  value typed. Then \<open>update_record\<close> raises nothing and reports nothing like
  RecordNotFound: the UPDATE statement runs, changes no row, is committed, and the method
  prints that the record was updated. The store the connection sees is the one it saw
  before.
\<close>

theorem update_unmatched_key_reports_success:
  assumes "lookup_table (work c) table_name = Some t"
      and "sql_name table_name"
      and "list_all (\<lambda>x. sql_name (cname x)) (cols t)"
      and "primary_key_of (cols t) \<noteq> []"
      and "col_index (cols t) (primary_key_of (cols t)) = Some wi"
      and "updates_of (cols t) (primary_key_of (cols t)) answers \<noteq> []"
      and "\<forall>r \<in> set (rows t). \<not> hit eng t wi (VText primary_key_value) r"
  shows "update_record eng c table_name primary_key_value answers
           = (c\<lparr>disk := work c, in_txn := False\<rparr>, Updated)"
proof -
  obtain idxs where
    "those (map (\<lambda>a. col_index (cols t) (fst a))
        (updates_of (cols t) (primary_key_of (cols t)) answers)) = Some idxs"
    using updates_of_resolve by blast
  then have "update_where eng table_name (updates_of (cols t) (primary_key_of (cols t)) answers)
               (primary_key_of (cols t)) (VText primary_key_value) (work c) = Inr (work c)"
    using assms(1,5,6,7) by (intro update_where_no_hit) auto
  then show ?thesis
    using assms(1,4,6)
    by (simp add: update_record_def table_info_def execute_dml_def commit_def)
qed

lemma routines_lookup: "lookup_table (work example_conn) ''routines'' = Some routines"
  by code_simp

lemma routines_key: "primary_key_of (cols routines) = ''id''"
  by code_simp

lemma routines_key_index: "col_index (cols routines) ''id'' = Some 0"
  by code_simp

lemma routines_no_7:
  "\<forall>r \<in> set (rows routines). \<not> hit example_engine routines 0 (VText ''7'') r"
proof -
  have "list_all (\<lambda>r. \<not> hit example_engine routines 0 (VText ''7'') r) (rows routines)"
    by code_simp
  then show ?thesis by (simp add: list_all_iff)
qed

lemma routines_updates:
  "updates_of (cols routines) ''id'' (\<lambda>n. ''Arm Day'') = [(''title'', VText ''Arm Day'')]"
  by code_simp

theorem update_unmatched_key_reports_success_witness:
  "update_record example_engine example_conn ''routines'' ''7'' (\<lambda>n. ''Arm Day'')
     = (example_conn\<lparr>disk := work example_conn, in_txn := False\<rparr>, Updated)"
proof -
  have "primary_key_of (cols routines) \<noteq> []"
    by (simp add: routines_key)
  moreover have "col_index (cols routines) (primary_key_of (cols routines)) = Some 0"
    by (simp add: routines_key routines_key_index)
  moreover have "updates_of (cols routines) (primary_key_of (cols routines)) (\<lambda>n. ''Arm Day'') \<noteq> []"
    by (simp add: routines_key routines_updates)
  ultimately show ?thesis
    using update_unmatched_key_reports_success [OF routines_lookup routines_plain _ _ _ routines_no_7]
    by blast
qed

text \<open>
  The claim as the specification states it fails on the table \<open>routines\<close>, whose only row
  has the key 1: an update of the key 7 with a new title is reported as a success.
\<close>

theorem update_unmatched_key_counterexample:
  "list_all (\<lambda>r. \<not> hit example_engine routines 0 (VText ''7'') r) (rows routines)
   \<and> snd (update_record example_engine example_conn ''routines'' ''7'' (\<lambda>n. ''Arm Day'')) = Updated
   \<and> work (fst (update_record example_engine example_conn ''routines'' ''7'' (\<lambda>n. ''Arm Day'')))
        ''routines'' = Some routines"
  by code_simp

subsection \<open>Login\<close>

lemma find_filter:
  "find P xs = Some r \<Longrightarrow> \<exists>rs. filter P xs = r # rs"
  by (induction xs) (auto split: if_splits)

text \<open>
  Where the password check returns, \<open>login\<close> answers as the check says, and a failed
  check answers exactly as an unknown username does. Where the check raises, the exception
  leaves the handler for a stored username, while an unknown username never reaches the
  check.
\<close>

lemma login_known:
  assumes "lookup_table d ''User'' = Some t"
      and "col_index (cols t) ''username'' = Some ui"
      and "col_index (cols t) ''password'' = Some pj"
      and "find (hit eng t ui (bind_text known)) (rows t) = Some r"
  shows "login eng check_password_hash d known password
           = (case check_password_hash (r ! pj) password of
                Inl e \<Rightarrow> Unhandled e
              | Inr ok \<Rightarrow> if ok then Reply 200 (Message ''Login successful'')
                         else Reply 401 (ErrorMsg ''Invalid username or password''))"
proof -
  obtain rs where "filter (hit eng t ui (bind_text known)) (rows t) = r # rs"
    using find_filter [OF assms(4)] by blast
  then show ?thesis
    using assms(1,2,3) by (simp add: login_def select_col_where_def)
qed

lemma login_unknown:
  assumes "lookup_table d ''User'' = Some t"
      and "col_index (cols t) ''username'' = Some ui"
      and "col_index (cols t) ''password'' = Some pj"
      and "\<forall>x \<in> set (rows t). \<not> hit eng t ui (bind_text unknown) x"
  shows "login eng check_password_hash d unknown password
           = Reply 401 (ErrorMsg ''Invalid username or password'')"
proof -
  have "filter (hit eng t ui (bind_text unknown)) (rows t) = []"
    using assms(4) by (simp add: filter_empty_conv)
  then show ?thesis
    using assms(1,2,3) by (simp add: login_def select_col_where_def)
qed

text \<open>
  C9. The two failures are not always the same response. In the table \<open>User\<close> that holds
  zoe with a password hash and john without a password: a login as john is answered with
  an unhandled AttributeError (status 500) and a login with an unknown name with 401, and
  a request without a password field is answered with the unhandled exception for the
  stored name zoe and with 401 for an unknown name. With a password field and a stored
  hash, a wrong password and an unknown name get the same 401, and the right password 200.
\<close>

theorem login_failure_not_uniform:
  "login example_engine example_check login_db (Some ''john'') (Some ''guess'')
     = Unhandled AttributeError
   \<and> login example_engine example_check login_db (Some ''nobody'') (Some ''guess'')
     = Reply 401 (ErrorMsg ''Invalid username or password'')
   \<and> login example_engine example_check login_db (Some ''zoe'') None
     = Unhandled AttributeError
   \<and> login example_engine example_check login_db (Some ''nobody'') None
     = Reply 401 (ErrorMsg ''Invalid username or password'')
   \<and> login example_engine example_check login_db (Some ''zoe'') (Some ''guess'')
     = Reply 401 (ErrorMsg ''Invalid username or password'')
   \<and> login example_engine example_check login_db (Some ''zoe'') (Some ''zoe'')
     = Reply 200 (Message ''Login successful'')"
  by code_simp

subsection \<open>What a rebuild leaves behind\<close>













subsection \<open>Dropping a column\<close>
















subsection \<open>What an update leaves alone\<close>

lemma those_map_sources:
  "those (map f xs) = Some ys \<Longrightarrow> \<forall>y \<in> set ys. \<exists>x \<in> set xs. f x = Some y"
proof (induction xs arbitrary: ys)
  case Nil
  then show ?case by simp
next
  case (Cons x xs)
  then obtain y zs where "f x = Some y" "those (map f xs) = Some zs" "ys = y # zs"
    by (auto split: option.splits)
  with Cons.IH [of zs] show ?case by auto
qed

lemma patch_untouched:
  assumes "new j = None" and "j < length r"
  shows "patch new r ! j = r ! j"
  using assms by (simp add: patch_def nth_enumerate_eq)

lemma map_of_indexed_None:
  assumes "j \<notin> set idxs"
  shows "map_of (map2 (\<lambda>i a. (i, g i a)) idxs asg) j = None"
proof -
  have "fst ` set (map2 (\<lambda>i a. (i, g i a)) idxs asg) \<subseteq> set idxs"
    by (auto simp: set_zip)
  with assms show ?thesis
    by (auto simp: map_of_eq_None_iff)
qed

lemma update_where_frame:
  assumes run: "update_where eng name asg wcol wval d = Inr d'"
      and t: "lookup_table d name = Some t"
      and out: "\<forall>a \<in> set asg. col_index (cols t) (fst a) \<noteq> Some j"
  shows "\<exists>t'. lookup_table d' name = Some t' \<and> cols t' = cols t
              \<and> length (rows t') = length (rows t)
              \<and> (\<forall>i < length (rows t). j < length (rows t ! i)
                    \<longrightarrow> rows t' ! i ! j = rows t ! i ! j)"
proof -
  from run t obtain wi idxs where
    idxs: "those (map (\<lambda>a. col_index (cols t) (fst a)) asg) = Some idxs"
    and d': "d' = d(lower name \<mapsto> t\<lparr>rows :=
               map (\<lambda>r. if hit eng t wi wval r
                         then patch (map_of (map2 (\<lambda>i a. (i, store_as eng (ctype (cols t ! i)) (snd a)))
                                               idxs asg)) r
                         else r) (rows t)\<rparr>)"
    by (auto simp: update_where_def Let_def split: option.splits if_splits)
  have "j \<notin> set idxs"
    using those_map_sources [OF idxs] out by auto
  then have "map_of (map2 (\<lambda>i a. (i, store_as eng (ctype (cols t ! i)) (snd a))) idxs asg) j = None"
    by (rule map_of_indexed_None)
  then show ?thesis
    unfolding d' by (auto simp: lookup_table_def patch_untouched)
qed

lemma col_index_lower:
  "col_index cs n = Some j \<Longrightarrow> j < length cs \<and> lower (cname (cs ! j)) = lower n"
  unfolding col_index_def by (drule find_index_of_Some) simp

lemma updates_of_avoid:
  assumes dist: "distinct (map (\<lambda>x. lower (cname x)) cs)"
      and j: "j < length cs"
      and out: "cname (cs ! j) \<notin> fst ` set (updates_of cs k answers)"
  shows "\<forall>a \<in> set (updates_of cs k answers). col_index cs (fst a) \<noteq> Some j"
proof
  fix a
  assume a: "a \<in> set (updates_of cs k answers)"
  then obtain col where col: "col \<in> set cs" "fst a = cname col"
    by (auto simp: updates_of_def)
  then obtain i where i: "i < length cs" "cs ! i = col"
    by (auto simp: in_set_conv_nth)
  show "col_index cs (fst a) \<noteq> Some j"
  proof
    assume "col_index cs (fst a) = Some j"
    then have "lower (cname (cs ! j)) = lower (cname (cs ! i))"
      using col_index_lower col(2) i(2) by fastforce
    then have "j = i"
      using dist i(1) j nth_eq_iff_index_eq [of "map (\<lambda>x. lower (cname x)) cs" j i]
      by simp
    with a col(2) i(2) out show False
      by force
  qed
qed

text \<open>
  C7, as the code has it. The table and its columns have plain names (\<open>sql_name\<close>, so
  that the UPDATE statement the method builds is the statement modelled). The change set
  of \<open>update_record\<close> holds the columns other than the key for which a non-empty text
  was typed. For the key column, whatever is typed for it, and for every column for which
  nothing was typed: the column is not in the change set, and whatever the update does (it
  may change rows, change none, or fail), every field of that column has the value it had
  before, in every row, and the columns and the number of rows are the same. So the empty
  text means no change, and the update has no way to set a field to the empty value.
\<close>

theorem update_leaves_other_fields:
  assumes t: "lookup_table (work c) table_name = Some t"
      and dist: "distinct (map (\<lambda>x. lower (cname x)) (cols t))"
      and "sql_name table_name"
      and "list_all (\<lambda>x. sql_name (cname x)) (cols t)"
      and j: "j < length (cols t)"
      and omitted: "answers (cname (cols t ! j)) = []
                    \<or> cname (cols t ! j) = primary_key_of (cols t)"
  shows "(\<exists>t'. lookup_table (work (fst (update_record eng c table_name primary_key_value answers)))
                 table_name = Some t'
              \<and> cols t' = cols t \<and> length (rows t') = length (rows t)
              \<and> (\<forall>i < length (rows t). j < length (rows t ! i)
                    \<longrightarrow> rows t' ! i ! j = rows t ! i ! j))
         \<and> cname (cols t ! j)
             \<notin> fst ` set (updates_of (cols t) (primary_key_of (cols t)) answers)"
proof -
  let ?k = "primary_key_of (cols t)"
  let ?asg = "updates_of (cols t) ?k answers"
  let ?goal = "\<lambda>d'. \<exists>t'. lookup_table d' table_name = Some t'
              \<and> cols t' = cols t \<and> length (rows t') = length (rows t)
              \<and> (\<forall>i < length (rows t). j < length (rows t ! i)
                    \<longrightarrow> rows t' ! i ! j = rows t ! i ! j)"
  have out: "cname (cols t ! j) \<notin> fst ` set ?asg"
    using omitted by (auto simp: updates_of_def)
  have same: "?goal (work c)"
    using t by simp
  have "?goal (work (fst (update_record eng c table_name primary_key_value answers)))"
  proof (cases "update_where eng table_name ?asg ?k (VText primary_key_value) (work c)")
    case (Inl e)
    then show ?thesis
      using same t by (simp add: update_record_def table_info_def execute_dml_def Let_def)
  next
    case (Inr d')
    have "?goal d'"
      using update_where_frame [OF Inr t updates_of_avoid [OF dist j out]] .
    with Inr same t show ?thesis
      by (simp add: update_record_def table_info_def execute_dml_def commit_def Let_def)
  qed
  with out show ?thesis by blast
qed

lemma plans_lookup: "lookup_table (work example_conn) ''plans'' = Some plans"
  by code_simp

lemma plans_names_distinct: "distinct (map (\<lambda>x. lower (cname x)) (cols plans))"
  by code_simp

lemma plans_key_and_title:
  "cname (cols plans ! 0) = primary_key_of (cols plans)"
  "(\<lambda>n. if n = ''title'' then [] else ''9'') (cname (cols plans ! 1)) = []"
  by code_simp+

lemma plans_shape: "length (cols plans) = 3" "length (rows plans) = 1" "length (rows plans ! 0) = 3"
  by (simp_all add: plans_def)

theorem update_leaves_other_fields_witness:
  "\<exists>t'. lookup_table (work (fst (update_record example_engine example_conn ''plans'' ''1''
                                    (\<lambda>n. if n = ''title'' then [] else ''9''))))
            ''plans'' = Some t'
        \<and> cols t' = cols plans \<and> length (rows t') = length (rows plans)
        \<and> rows t' ! 0 ! 0 = rows plans ! 0 ! 0
        \<and> rows t' ! 0 ! 1 = rows plans ! 0 ! 1"
proof -
  let ?ans = "\<lambda>n. if n = ''title'' then [] else ''9''"
  have key: "?ans (cname (cols plans ! 0)) = [] \<or> cname (cols plans ! 0) = primary_key_of (cols plans)"
    using plans_key_and_title(1) by blast
  have title: "?ans (cname (cols plans ! 1)) = [] \<or> cname (cols plans ! 1) = primary_key_of (cols plans)"
    using plans_key_and_title(2) by blast
  have j0: "(0::nat) < length (cols plans)" and j1: "(1::nat) < length (cols plans)"
    by (simp_all add: plans_shape)
  note at_key = update_leaves_other_fields [where answers = ?ans and j = 0
      and eng = example_engine and primary_key_value = "''1''",
      OF plans_lookup plans_names_distinct plans_plain j0 key]
  note at_title = update_leaves_other_fields [where answers = ?ans and j = 1
      and eng = example_engine and primary_key_value = "''1''",
      OF plans_lookup plans_names_distinct plans_plain j1 title]
  from at_key obtain t0 where
    t0: "lookup_table (work (fst (update_record example_engine example_conn ''plans'' ''1'' ?ans)))
           ''plans'' = Some t0"
      "cols t0 = cols plans" "length (rows t0) = length (rows plans)"
      "rows t0 ! 0 ! 0 = rows plans ! 0 ! 0"
    by (auto simp: plans_shape)
  from at_title obtain t1 where
    t1: "lookup_table (work (fst (update_record example_engine example_conn ''plans'' ''1'' ?ans)))
           ''plans'' = Some t1"
      "rows t1 ! 0 ! 1 = rows plans ! 0 ! 1"
    by (auto simp: plans_shape)
  from t0(1) t1(1) have "t1 = t0"
    by simp
  with t0 t1(2) show ?thesis
    by blast
qed

text \<open>
  The claim as the specification states it fails on the table \<open>plans\<close>, whose row 1 has
  the title \<open>Leg Day\<close>. An update that gives the empty text for \<open>title\<close> and a new text
  for \<open>notes\<close> leaves the title as it was instead of setting it to the empty value, and
  an update that gives the empty text for every column is reported as no change at all.
\<close>

theorem update_empty_value_counterexample:
  "snd (update_record example_engine example_conn ''plans'' ''1''
          (\<lambda>n. if n = ''notes'' then ''light'' else '''')) = Updated
   \<and> map_option rows (work (fst (update_record example_engine example_conn ''plans'' ''1''
                                    (\<lambda>n. if n = ''notes'' then ''light'' else ''''))) ''plans'')
       = Some [[VInt 1, VText ''Leg Day'', VText ''light'']]
   \<and> snd (update_record example_engine example_conn ''plans'' ''1'' (\<lambda>n. '''')) = NoChanges"
  by code_simp

subsection \<open>A failure in the middle of a rebuild\<close>

text \<open>
  C1. The rebuild runs its three statements one after the other and has no rollback.
  On the table \<open>routines\<close>, with the connection outside a transaction: when DROP TABLE
  fails after the copy was created, the original is intact but the copy \<open>routines_new\<close>
  stays, in what the connection sees and in the committed store; when the final RENAME
  fails, the original is gone and only the copy is left. The same holds for the rename
  branch.
\<close>

theorem rebuild_failure_leaves_shadow:
  "snd (modify_table (\<lambda>k. k = 1) example_conn ''routines'' (Choice3 ''title''))
     = SqlError OperationalError
   \<and> lookup_table (work (fst (modify_table (\<lambda>k. k = 1) example_conn ''routines''
                                 (Choice3 ''title'')))) ''routines'' = Some routines
   \<and> map_option rows (lookup_table (work (fst (modify_table (\<lambda>k. k = 1) example_conn ''routines''
                                 (Choice3 ''title'')))) ''routines_new'') = Some [[VInt 1]]
   \<and> map_option rows (lookup_table (disk (fst (modify_table (\<lambda>k. k = 1) example_conn ''routines''
                                 (Choice3 ''title'')))) ''routines_new'') = Some [[VInt 1]]
   \<and> snd (modify_table (\<lambda>k. k = 2) example_conn ''routines'' (Choice3 ''title''))
     = SqlError OperationalError
   \<and> lookup_table (work (fst (modify_table (\<lambda>k. k = 2) example_conn ''routines''
                                 (Choice3 ''title'')))) ''routines'' = None
   \<and> lookup_table (disk (fst (modify_table (\<lambda>k. k = 2) example_conn ''routines''
                                 (Choice3 ''title'')))) ''routines'' = None
   \<and> map_option rows (lookup_table (disk (fst (modify_table (\<lambda>k. k = 2) example_conn ''routines''
                                 (Choice3 ''title'')))) ''routines_new'') = Some [[VInt 1]]
   \<and> snd (modify_table (\<lambda>k. k = 2) example_conn ''routines'' (Choice2 ''title'' ''id''))
     = SqlError OperationalError
   \<and> lookup_table (disk (fst (modify_table (\<lambda>k. k = 2) example_conn ''routines''
                                 (Choice2 ''title'' ''id'')))) ''routines'' = None
   \<and> map_option rows (lookup_table (disk (fst (modify_table (\<lambda>k. k = 2) example_conn ''routines''
                                 (Choice2 ''title'' ''id'')))) ''routines_new'') = Some [[VInt 1, VInt 1]]"
  by code_simp

subsection \<open>Renaming a column\<close>

text \<open>
  C8. The rename branch selects the new name from the old table. On the table \<open>plans\<close>
  with the row (1, Leg Day, heavy): renaming \<open>title\<close> to \<open>notes\<close> succeeds and the row
  becomes (1, heavy, heavy), so the title is lost; renaming \<open>title\<close> to the fresh name
  \<open>name\<close> fails with a store error and the table keeps its column \<open>title\<close>.
\<close>

theorem rename_column_loses_values:
  "snd (modify_table no_fault example_conn ''plans'' (Choice2 ''title'' ''notes'')) = Renamed
   \<and> map_option rows (lookup_table (work (fst (modify_table no_fault example_conn ''plans''
                                       (Choice2 ''title'' ''notes'')))) ''plans'')
       = Some [[VInt 1, VText ''heavy'', VText ''heavy'']]
   \<and> map cname (table_info (work (fst (modify_table no_fault example_conn ''plans''
                                          (Choice2 ''title'' ''notes'')))) ''plans'')
       = [''id'', ''notes'', ''notes:1'']
   \<and> rows plans = [[VInt 1, VText ''Leg Day'', VText ''heavy'']]
   \<and> snd (modify_table no_fault example_conn ''plans'' (Choice2 ''title'' ''name''))
       = SqlError OperationalError
   \<and> lookup_table (work (fst (modify_table no_fault example_conn ''plans''
                                 (Choice2 ''title'' ''name'')))) ''plans'' = Some plans"
  by code_simp

subsection \<open>Inserting a value that is not a number\<close>

lemma convert_all_fails:
  assumes "col \<in> set columns"
      and "convert py_float (ctype col) (answers (cname col)) = Inl ValueError"
  shows "convert_all py_float answers columns = Inl ValueError"
  using assms
proof (induction columns)
  case Nil
  then show ?case by simp
next
  case (Cons x xs)
  have only: "\<And>ty v e. convert py_float ty v = Inl e \<Longrightarrow> e = ValueError"
    by (auto simp: convert_def split: if_splits option.splits)
  show ?case
  proof (cases "convert py_float (ctype x) (answers (cname x))")
    case (Inl e)
    with only show ?thesis by auto
  next
    case (Inr v)
    with Cons show ?thesis by (auto split: sum.splits)
  qed
qed

lemma insert_record_not_a_number:
  assumes "col \<in> set (table_info (work c) table_name)"
      and "ctype col = ''INTEGER''"
      and "answers (cname col) \<noteq> []"
      and "list_all is_ascii (answers (cname col))"
      and "py_int (answers (cname col)) = None"
  shows "insert_record eng py_float c table_name answers = (c, Crash ValueError)"
proof -
  have "convert py_float (ctype col) (answers (cname col)) = Inl ValueError"
    using assms(2,3,5) by (simp add: convert_def)
  with assms(1) have "convert_all py_float answers (table_info (work c) table_name) = Inl ValueError"
    by (rule convert_all_fails)
  then show ?thesis
    by (simp add: insert_record_def)
qed

text \<open>
  C5. \<open>insert_record\<close> parses what is typed for an INTEGER column with \<open>int\<close> and
  catches \<open>sqlite3.Error\<close> only, so a text that is not a number ends the method with an
  uncaught ValueError, for every table (\<open>insert_record_not_a_number\<close>). On the table
  \<open>routines\<close>, typing \<open>one\<close> for the column \<open>id\<close> does so and no row is added,
  while typing \<open>2\<close> inserts the row.
\<close>

theorem insert_record_value_error:
  "snd (insert_record example_engine (\<lambda>s. None) example_conn ''routines''
          (\<lambda>n. if n = ''id'' then ''one'' else ''Arm Day'')) = Crash ValueError
   \<and> \<not> is_sqlite_error ValueError
   \<and> lookup_table (work (fst (insert_record example_engine (\<lambda>s. None) example_conn ''routines''
          (\<lambda>n. if n = ''id'' then ''one'' else ''Arm Day'')))) ''routines'' = Some routines
   \<and> snd (insert_record example_engine (\<lambda>s. None) example_conn ''routines''
          (\<lambda>n. if n = ''id'' then ''2'' else ''Arm Day'')) = Inserted
   \<and> map_option rows (lookup_table (work (fst (insert_record example_engine (\<lambda>s. None)
          example_conn ''routines'' (\<lambda>n. if n = ''id'' then ''2'' else ''Arm Day'')))) ''routines'')
       = Some [[VInt 1, VText ''Leg Day''], [VInt 2, VText ''Arm Day'']]"
  by code_simp

subsection \<open>Identifiers past U999\<close>

text \<open>
  C2. \<open>signup\<close> takes the greatest \<open>user_id\<close> in the order of text. In a table \<open>User\<close>
  whose greatest identifier is U999, the next signup is given U1000, and the one after it
  is given U1000 again, because the text U999 is greater than the text U1000: with no
  uniqueness on \<open>user_id\<close> both answer 201 with the same identifier, and with
  \<open>user_id\<close> as the primary key the second ends with an IntegrityError.
\<close>

theorem signup_repeats_U1000:
  "snd (signup example_engine (\<lambda>p. ''pw-'' @ p) (user_db False)
          ''amy'' ''amy@example.com'' ''a'' None)
     = Reply 201 (Registered ''User registered successfully'' ''U1000'')
   \<and> snd (signup example_engine (\<lambda>p. ''pw-'' @ p)
            (fst (signup example_engine (\<lambda>p. ''pw-'' @ p) (user_db False)
                    ''amy'' ''amy@example.com'' ''a'' None))
            ''bob'' ''bob@example.com'' ''b'' None)
     = Reply 201 (Registered ''User registered successfully'' ''U1000'')
   \<and> snd (signup example_engine (\<lambda>p. ''pw-'' @ p)
            (fst (signup example_engine (\<lambda>p. ''pw-'' @ p) (user_db True)
                    ''amy'' ''amy@example.com'' ''a'' None))
            ''bob'' ''bob@example.com'' ''b'' None)
     = Unhandled IntegrityError
   \<and> val_less (VText ''U1000'') (VText ''U999'')"
  by code_simp

end
